theory Spec2Isabelle
  imports Main
begin

section \<open>The live channel of the blog platform\<close>

text \<open>
  The development embeds the socket layer of the backend (\<^verbatim>\<open>setupWebSockets\<close>, file
  \<^verbatim>\<open>src/unnamed/part_001\<close>) together with the two Mongoose schemas it writes to
  (\<^verbatim>\<open>Comment\<close>, \<^verbatim>\<open>src/unnamed/part_003\<close>, and \<^verbatim>\<open>Post\<close>, \<^verbatim>\<open>src/unnamed/part_002\<close>).
  Every handler is a function from the server state to the new state and the list of
  deliveries it causes; a delivery is a pair of the receiving socket's id and the event.
\<close>

subsection \<open>Strings\<close>

text \<open>
  Ids, user names and room names are only compared and concatenated, so they are
  \<^typ>\<open>string\<close>s. The body of a comment is measured (\<^verbatim>\<open>maxlength\<close>) and trimmed, and
  JavaScript counts and trims UTF-16 code units: a body is the list of its code units.
\<close>

type_synonym oid = string
type_synonym jsstring = "nat list"

text \<open>\<^verbatim>\<open>String.prototype.trim\<close> strips the code units of ECMAScript's WhiteSpace and
  LineTerminator productions from both ends.\<close>

definition isWhiteSpace :: "nat \<Rightarrow> bool" where
  "isWhiteSpace c =
     (c \<in> {9, 10, 11, 12, 13, 32, 160, 5760, 8232, 8233, 8239, 8287, 12288, 65279}
      \<or> (8192 \<le> c \<and> c \<le> 8202))"

definition trim :: "jsstring \<Rightarrow> jsstring" where
  "trim s = rev (dropWhile isWhiteSpace (rev (dropWhile isWhiteSpace s)))"

subsection \<open>Documents\<close>

text \<open>The fields of the three collections that the socket layer reads or writes.\<close>

datatype post_status = Draft | Published | Archived

record user =
  user_username :: string
  avatar :: "string option"

record post =
  post_author :: oid
  status :: post_status
  post_likes :: "oid list"

record comment =
  content :: jsstring
  author :: oid
  post :: oid
  parentComment :: "oid option"
  comment_likes :: "oid list"
  isEdited :: bool

text \<open>What \<^verbatim>\<open>populate('author', 'username avatar')\<close> puts on the wire: the document, its
  id, and the author's user document when there is one.\<close>

record populated =
  doc_id :: oid
  doc :: comment
  doc_author :: "user option"

subsection \<open>Sockets and the server state\<close>

text \<open>An \<^verbatim>\<open>AuthenticatedSocket\<close>: its id, the identity bound at the handshake, and the
  rooms it has joined.\<close>

record socket =
  sid :: string
  userId :: oid
  username :: string
  rooms :: "string set"

text \<open>
  The state holds the three collections and the connected sockets. Two collaborators
  are outside the repository and are fields of the state that no handler changes:
  \<^item> \<open>jwtVerify\<close> is \<^verbatim>\<open>jwt.verify\<close> with the server's secret: the \<^verbatim>\<open>userId\<close> of the
    payload, or \<open>None\<close> where it throws;
  \<^item> \<open>throwsOn\<close> holds of the ids on which a store operation throws: an id that
    Mongoose cannot cast to an ObjectId, or every id while the store is unreachable.
\<close>

record server =
  jwtVerify :: "string \<Rightarrow> oid option"
  throwsOn :: "oid \<Rightarrow> bool"
  users :: "oid \<rightharpoonup> user"
  posts :: "oid \<rightharpoonup> post"
  comments :: "oid \<rightharpoonup> comment"
  sockets :: "socket list"

datatype action = Like | Unlike
datatype typing_type = Comment | Reply
datatype presence = Online | Offline

datatype out_event =
    CommentAdded populated oid
  | CommentUpdated populated oid
  | CommentDeleted oid oid
  | PostLikesUpdated oid nat action
  | CommentLikesUpdated oid oid nat action
  | UserTyping oid string typing_type
  | UserStoppedTyping oid string
  | UserStatus oid string presence
  | PrivateMessage oid string oid string jsstring
  | CommentError string
  | PostError string
  | MessageError string

type_synonym delivery = "string \<times> out_event"

subsection \<open>Emitting\<close>

text \<open>
  The ways the handlers emit: \<^verbatim>\<open>socket.emit\<close> (the socket alone),
  \<^verbatim>\<open>io.to(room).emit\<close> (every socket in the room), \<^verbatim>\<open>socket.to(room).emit\<close> (every
  socket in the room but this one), \<^verbatim>\<open>socket.broadcast.emit\<close> (every socket but this
  one) and \<^verbatim>\<open>io.emit\<close> (every socket).
\<close>

definition socket_emit :: "socket \<Rightarrow> out_event \<Rightarrow> delivery list" where
  "socket_emit sock ev = [(sid sock, ev)]"

definition io_to_emit :: "server \<Rightarrow> string \<Rightarrow> out_event \<Rightarrow> delivery list" where
  "io_to_emit srv room ev = [(sid c, ev). c \<leftarrow> sockets srv, room \<in> rooms c]"

definition socket_to_emit :: "server \<Rightarrow> socket \<Rightarrow> string \<Rightarrow> out_event \<Rightarrow> delivery list" where
  "socket_to_emit srv sock room ev =
     [(sid c, ev). c \<leftarrow> sockets srv, sid c \<noteq> sid sock, room \<in> rooms c]"

definition socket_broadcast_emit :: "server \<Rightarrow> socket \<Rightarrow> out_event \<Rightarrow> delivery list" where
  "socket_broadcast_emit srv sock ev = [(sid c, ev). c \<leftarrow> sockets srv, sid c \<noteq> sid sock]"

definition io_emit :: "server \<Rightarrow> out_event \<Rightarrow> delivery list" where
  "io_emit srv ev = [(sid c, ev). c \<leftarrow> sockets srv]"

text \<open>The room of a post: the template string \<^verbatim>\<open>`post-${postId}`\<close>.\<close>

definition post_room :: "oid \<Rightarrow> string" where
  "post_room postId = ''post-'' @ postId"

subsection \<open>The handshake\<close>

text \<open>
  \<^verbatim>\<open>io.use\<close>: a missing (or empty, hence falsy) token, a token that \<^verbatim>\<open>jwt.verify\<close>
  rejects, a throwing lookup and an unknown user all end in \<^verbatim>\<open>next(new Error(...))\<close>,
  which refuses the connection. Otherwise the identity is bound to the socket.
\<close>

definition authenticate :: "server \<Rightarrow> string option \<Rightarrow> string + (oid \<times> string)" where
  "authenticate srv token =
     (case token of
        None \<Rightarrow> Inl ''Authentication error''
      | Some t \<Rightarrow>
          if t = [] then Inl ''Authentication error''
          else (case jwtVerify srv t of
                  None \<Rightarrow> Inl ''Authentication error''
                | Some uid \<Rightarrow>
                    if throwsOn srv uid then Inl ''Authentication error''
                    else (case users srv uid of
                            None \<Rightarrow> Inl ''User not found''
                          | Some u \<Rightarrow> Inr (uid, user_username u))))"

text \<open>A connection: the middleware runs first; the socket is registered, in no post
  room, only when it passes.\<close>

definition connect :: "server \<Rightarrow> string \<Rightarrow> string option \<Rightarrow> string + server" where
  "connect srv s token =
     (case authenticate srv token of
        Inl e \<Rightarrow> Inl e
      | Inr (uid, name) \<Rightarrow>
          Inr (srv\<lparr>sockets := sockets srv @
                 [\<lparr>sid = s, userId = uid, username = name, rooms = {}\<rparr>]\<rparr>))"

subsection \<open>The store\<close>

text \<open>
  \<^verbatim>\<open>new Comment({...})\<close> runs the schema's setters, so the body is held trimmed
  (\<^verbatim>\<open>trim: true\<close>); \<^verbatim>\<open>likes\<close> and \<^verbatim>\<open>isEdited\<close> take their defaults.
\<close>

definition new_Comment :: "jsstring \<Rightarrow> oid \<Rightarrow> oid \<Rightarrow> oid option \<Rightarrow> comment" where
  "new_Comment cont auth postId parent =
     \<lparr>content = trim cont, author = auth, post = postId, parentComment = parent,
      comment_likes = [], isEdited = False\<rparr>"

text \<open>
  The validation that \<^verbatim>\<open>save\<close> runs on a new comment: \<^verbatim>\<open>content\<close> is required (an
  empty string fails) and at most 1000 code units long, and the three references must
  be ids the store accepts. The schema has no validator that looks a reference up.
\<close>

definition validate_comment :: "server \<Rightarrow> comment \<Rightarrow> bool" where
  "validate_comment srv c =
     (content c \<noteq> [] \<and> length (content c) \<le> 1000
      \<and> \<not> throwsOn srv (author c) \<and> \<not> throwsOn srv (post c)
      \<and> (case parentComment c of None \<Rightarrow> True | Some p \<Rightarrow> \<not> throwsOn srv p))"

text \<open>\<^verbatim>\<open>comment.save()\<close> of a new document, whose id \<open>newId\<close> the driver chose: it throws
  (\<open>Inl\<close>) when validation fails and inserts otherwise.\<close>

definition Comment_save :: "server \<Rightarrow> oid \<Rightarrow> comment \<Rightarrow> string + server" where
  "Comment_save srv newId c =
     (if validate_comment srv c
      then Inr (srv\<lparr>comments := (comments srv)(newId \<mapsto> c)\<rparr>)
      else Inl ''ValidationError'')"

definition populate :: "server \<Rightarrow> oid \<Rightarrow> comment \<Rightarrow> populated" where
  "populate srv i c = \<lparr>doc_id = i, doc = c, doc_author = users srv (author c)\<rparr>"

subsection \<open>The handlers\<close>

text \<open>\<^verbatim>\<open>join-post\<close> and \<^verbatim>\<open>leave-post\<close> change the rooms of the socket itself.\<close>

definition join_post :: "server \<Rightarrow> socket \<Rightarrow> oid \<Rightarrow> server" where
  "join_post srv sock postId =
     srv\<lparr>sockets := map (\<lambda>c. if sid c = sid sock
                                then c\<lparr>rooms := insert (post_room postId) (rooms c)\<rparr> else c)
                         (sockets srv)\<rparr>"

definition leave_post :: "server \<Rightarrow> socket \<Rightarrow> oid \<Rightarrow> server" where
  "leave_post srv sock postId =
     srv\<lparr>sockets := map (\<lambda>c. if sid c = sid sock
                                then c\<lparr>rooms := rooms c - {post_room postId}\<rparr> else c)
                         (sockets srv)\<rparr>"

text \<open>
  \<^verbatim>\<open>new-comment\<close>: the document is built from the payload and the socket's identity
  (\<^verbatim>\<open>data.parentComment || null\<close> turns an absent or empty parent into \<^verbatim>\<open>null\<close>),
  saved, populated and sent to the room of the post; a throw is answered to the socket.
\<close>

definition new_comment ::
  "server \<Rightarrow> socket \<Rightarrow> oid \<Rightarrow> jsstring \<Rightarrow> oid option \<Rightarrow> oid \<Rightarrow> server \<times> delivery list" where
  "new_comment srv sock postId cont parent newId =
     (let c = new_Comment cont (userId sock) postId
                (case parent of None \<Rightarrow> None | Some p \<Rightarrow> if p = [] then None else Some p)
      in case Comment_save srv newId c of
           Inl e \<Rightarrow> (srv, socket_emit sock (CommentError ''Failed to add comment''))
         | Inr srv' \<Rightarrow>
             (srv', io_to_emit srv' (post_room postId)
                      (CommentAdded (populate srv' newId c) postId)))"

text \<open>\<^verbatim>\<open>update-comment\<close>: \<^verbatim>\<open>findByIdAndUpdate\<close> returns \<^verbatim>\<open>null\<close> for an id with no comment,
  and then the handler does nothing.\<close>

definition update_comment ::
  "server \<Rightarrow> socket \<Rightarrow> oid \<Rightarrow> jsstring \<Rightarrow> oid \<Rightarrow> server \<times> delivery list" where
  "update_comment srv sock commentId cont postId =
     (if throwsOn srv commentId
      then (srv, socket_emit sock (CommentError ''Failed to update comment''))
      else (case comments srv commentId of
              None \<Rightarrow> (srv, [])
            | Some c \<Rightarrow>
                (let c' = c\<lparr>content := trim cont, isEdited := True\<rparr>;
                     srv' = srv\<lparr>comments := (comments srv)(commentId \<mapsto> c')\<rparr>
                 in (srv', io_to_emit srv' (post_room postId)
                             (CommentUpdated (populate srv' commentId c') postId)))))"

text \<open>\<^verbatim>\<open>delete-comment\<close>: the result of \<^verbatim>\<open>findByIdAndDelete\<close> is not looked at.\<close>

definition delete_comment ::
  "server \<Rightarrow> socket \<Rightarrow> oid \<Rightarrow> oid \<Rightarrow> server \<times> delivery list" where
  "delete_comment srv sock commentId postId =
     (if throwsOn srv commentId
      then (srv, socket_emit sock (CommentError ''Failed to delete comment''))
      else (let srv' = srv\<lparr>comments := (comments srv)(commentId := None)\<rparr>
            in (srv', io_to_emit srv' (post_room postId) (CommentDeleted commentId postId))))"

text \<open>
  The body shared by \<^verbatim>\<open>post-like\<close> and \<^verbatim>\<open>comment-like\<close> (lines 123--132 and 155--164):
  \<^verbatim>\<open>like\<close> pushes the identity unless \<^verbatim>\<open>includes\<close> finds it, anything else splices
  out the position \<^verbatim>\<open>indexOf\<close> finds, the first one.
\<close>

definition apply_like :: "action \<Rightarrow> oid \<Rightarrow> oid list \<Rightarrow> oid list" where
  "apply_like act uid likes =
     (if act = Like then (if uid \<in> set likes then likes else likes @ [uid])
      else remove1 uid likes)"

text \<open>
  Both handlers are \<^verbatim>\<open>await findById\<close>, the edit of the document in memory, and
  \<^verbatim>\<open>await save()\<close>; other handlers run during each \<^verbatim>\<open>await\<close>. What \<^verbatim>\<open>save\<close> sends is
  the change the document has tracked, not the document: nothing when the array was
  not touched, a \<^verbatim>\<open>$push\<close> of the identity after \<^verbatim>\<open>push\<close>, and a \<^verbatim>\<open>$set\<close> of the whole
  array after \<^verbatim>\<open>splice\<close>.
\<close>

datatype change = NoChange | Push oid | SetAll "oid list"

definition tracked :: "action \<Rightarrow> oid \<Rightarrow> oid list \<Rightarrow> change" where
  "tracked act uid likes =
     (if act = Like then (if uid \<in> set likes then NoChange else Push uid)
      else (if uid \<in> set likes then SetAll (remove1 uid likes) else NoChange))"

text \<open>What the change does to the like list that the store holds when it arrives: a
  pushed identity is appended to whatever is there.\<close>

definition store_change :: "change \<Rightarrow> oid list \<Rightarrow> oid list" where
  "store_change ch likes =
     (case ch of NoChange \<Rightarrow> likes | Push uid \<Rightarrow> likes @ [uid] | SetAll new \<Rightarrow> new)"

text \<open>\<^verbatim>\<open>await Post.findById(...)\<close> and \<^verbatim>\<open>await Comment.findById(...)\<close>: a throw, or the
  document, or \<^verbatim>\<open>null\<close>.\<close>

definition Post_findById :: "server \<Rightarrow> oid \<Rightarrow> string + post option" where
  "Post_findById srv postId =
     (if throwsOn srv postId then Inl ''CastError'' else Inr (posts srv postId))"

definition Comment_findById :: "server \<Rightarrow> oid \<Rightarrow> string + comment option" where
  "Comment_findById srv commentId =
     (if throwsOn srv commentId then Inl ''CastError'' else Inr (comments srv commentId))"

text \<open>
  \<^verbatim>\<open>await post.save()\<close> and \<^verbatim>\<open>await comment.save()\<close> of a document read earlier. The save
  throws when the document is gone. A \<^verbatim>\<open>$set\<close> of the array is sent with the version key
  \<^verbatim>\<open>__v\<close> that was read and throws when the stored one has moved since (\<open>unmoved\<close> is
  false); a \<^verbatim>\<open>$push\<close> is sent without that check.
\<close>

definition Post_save :: "server \<Rightarrow> oid \<Rightarrow> change \<Rightarrow> bool \<Rightarrow> string + server" where
  "Post_save srv postId ch unmoved =
     (case posts srv postId of
        None \<Rightarrow> Inl ''DocumentNotFoundError''
      | Some q \<Rightarrow>
          (case ch of
             SetAll new \<Rightarrow>
               if unmoved then Inr (srv\<lparr>posts := (posts srv)(postId \<mapsto> q\<lparr>post_likes := new\<rparr>)\<rparr>)
               else Inl ''VersionError''
           | _ \<Rightarrow>
               Inr (srv\<lparr>posts := (posts srv)(postId \<mapsto>
                          q\<lparr>post_likes := store_change ch (post_likes q)\<rparr>)\<rparr>)))"

definition Comment_save_likes :: "server \<Rightarrow> oid \<Rightarrow> change \<Rightarrow> bool \<Rightarrow> string + server" where
  "Comment_save_likes srv commentId ch unmoved =
     (case comments srv commentId of
        None \<Rightarrow> Inl ''DocumentNotFoundError''
      | Some q \<Rightarrow>
          (case ch of
             SetAll new \<Rightarrow>
               if unmoved
               then Inr (srv\<lparr>comments := (comments srv)(commentId \<mapsto> q\<lparr>comment_likes := new\<rparr>)\<rparr>)
               else Inl ''VersionError''
           | _ \<Rightarrow>
               Inr (srv\<lparr>comments := (comments srv)(commentId \<mapsto>
                          q\<lparr>comment_likes := store_change ch (comment_likes q)\<rparr>)\<rparr>)))"

text \<open>
  The second half of the handlers, from \<^verbatim>\<open>save\<close> on: \<open>n\<close> is \<^verbatim>\<open>likes.length\<close> of the
  document in memory, which is what the broadcast carries, and \<open>ch\<close> the change it
  tracked.
\<close>

definition post_like_save ::
  "server \<Rightarrow> socket \<Rightarrow> oid \<Rightarrow> action \<Rightarrow> nat \<Rightarrow> change \<Rightarrow> bool \<Rightarrow> server \<times> delivery list" where
  "post_like_save srv sock postId act n ch unmoved =
     (case Post_save srv postId ch unmoved of
        Inl e \<Rightarrow> (srv, socket_emit sock (PostError ''Failed to update likes''))
      | Inr srv' \<Rightarrow> (srv', io_to_emit srv' (post_room postId) (PostLikesUpdated postId n act)))"

definition comment_like_save ::
  "server \<Rightarrow> socket \<Rightarrow> oid \<Rightarrow> oid \<Rightarrow> action \<Rightarrow> nat \<Rightarrow> change \<Rightarrow> bool
     \<Rightarrow> server \<times> delivery list" where
  "comment_like_save srv sock commentId postId act n ch unmoved =
     (case Comment_save_likes srv commentId ch unmoved of
        Inl e \<Rightarrow> (srv, socket_emit sock (CommentError ''Failed to update comment likes''))
      | Inr srv' \<Rightarrow>
          (srv', io_to_emit srv' (post_room postId)
                   (CommentLikesUpdated commentId postId n act)))"

text \<open>
  \<^verbatim>\<open>post-like\<close> and \<^verbatim>\<open>comment-like\<close> when nothing else touches the store between the two
  awaits of the handler: the save meets the document as it was read. Handlers that
  overlap are run by \<open>step\<close> below, from the same parts.
\<close>

definition post_like :: "server \<Rightarrow> socket \<Rightarrow> oid \<Rightarrow> action \<Rightarrow> server \<times> delivery list" where
  "post_like srv sock postId act =
     (case Post_findById srv postId of
        Inl e \<Rightarrow> (srv, socket_emit sock (PostError ''Failed to update likes''))
      | Inr None \<Rightarrow> (srv, [])
      | Inr (Some p) \<Rightarrow>
          post_like_save srv sock postId act
            (length (apply_like act (userId sock) (post_likes p)))
            (tracked act (userId sock) (post_likes p)) True)"

definition comment_like ::
  "server \<Rightarrow> socket \<Rightarrow> oid \<Rightarrow> oid \<Rightarrow> action \<Rightarrow> server \<times> delivery list" where
  "comment_like srv sock commentId postId act =
     (case Comment_findById srv commentId of
        Inl e \<Rightarrow> (srv, socket_emit sock (CommentError ''Failed to update comment likes''))
      | Inr None \<Rightarrow> (srv, [])
      | Inr (Some c) \<Rightarrow>
          comment_like_save srv sock commentId postId act
            (length (apply_like act (userId sock) (comment_likes c)))
            (tracked act (userId sock) (comment_likes c)) True)"

text \<open>The signals that are not stored.\<close>

definition typing_start ::
  "server \<Rightarrow> socket \<Rightarrow> oid \<Rightarrow> typing_type \<Rightarrow> server \<times> delivery list" where
  "typing_start srv sock postId ty =
     (srv, socket_to_emit srv sock (post_room postId)
             (UserTyping (userId sock) (username sock) ty))"

definition typing_stop :: "server \<Rightarrow> socket \<Rightarrow> oid \<Rightarrow> server \<times> delivery list" where
  "typing_stop srv sock postId =
     (srv, socket_to_emit srv sock (post_room postId)
             (UserStoppedTyping (userId sock) (username sock)))"

definition user_online :: "server \<Rightarrow> socket \<Rightarrow> server \<times> delivery list" where
  "user_online srv sock =
     (srv, socket_broadcast_emit srv sock (UserStatus (userId sock) (username sock) Online))"

text \<open>\<^verbatim>\<open>private-message\<close> (the payload's timestamp is left out).\<close>

definition private_message ::
  "server \<Rightarrow> socket \<Rightarrow> oid \<Rightarrow> jsstring \<Rightarrow> server \<times> delivery list" where
  "private_message srv sock toUserId message =
     (if throwsOn srv toUserId
      then (srv, socket_emit sock (MessageError ''Failed to send message''))
      else (case users srv toUserId of
              None \<Rightarrow> (srv, socket_emit sock (MessageError ''User not found''))
            | Some toUser \<Rightarrow>
                (srv, io_emit srv (PrivateMessage (userId sock) (username sock)
                                     toUserId (user_username toUser) message))))"

text \<open>\<^verbatim>\<open>disconnect\<close>: the socket is gone from the server when the handler runs.\<close>

definition disconnect :: "server \<Rightarrow> socket \<Rightarrow> server \<times> delivery list" where
  "disconnect srv sock =
     (let srv' = srv\<lparr>sockets := filter (\<lambda>c. sid c \<noteq> sid sock) (sockets srv)\<rparr>
      in (srv', socket_broadcast_emit srv' sock
                  (UserStatus (userId sock) (username sock) Offline)))"

subsection \<open>Dispatch\<close>

datatype in_event =
    JoinPost oid
  | LeavePost oid
  | NewComment oid jsstring "oid option"
  | UpdateComment oid jsstring oid
  | DeleteComment oid oid
  | PostLike oid action
  | CommentLike oid oid action
  | TypingStart oid typing_type
  | TypingStop oid
  | UserOnline
  | PrivateMessageTo oid jsstring
  | Disconnect

text \<open>The handlers that \<^verbatim>\<open>io.on('connection', ...)\<close> registers on a socket. The last
  argument is the id the driver gives a document that the event inserts.\<close>

fun on_event :: "server \<Rightarrow> socket \<Rightarrow> in_event \<Rightarrow> oid \<Rightarrow> server \<times> delivery list" where
  "on_event srv sock (JoinPost postId) newId = (join_post srv sock postId, [])"
| "on_event srv sock (LeavePost postId) newId = (leave_post srv sock postId, [])"
| "on_event srv sock (NewComment postId cont parent) newId =
     new_comment srv sock postId cont parent newId"
| "on_event srv sock (UpdateComment commentId cont postId) newId =
     update_comment srv sock commentId cont postId"
| "on_event srv sock (DeleteComment commentId postId) newId =
     delete_comment srv sock commentId postId"
| "on_event srv sock (PostLike postId act) newId = post_like srv sock postId act"
| "on_event srv sock (CommentLike commentId postId act) newId =
     comment_like srv sock commentId postId act"
| "on_event srv sock (TypingStart postId ty) newId = typing_start srv sock postId ty"
| "on_event srv sock (TypingStop postId) newId = typing_stop srv sock postId"
| "on_event srv sock UserOnline newId = user_online srv sock"
| "on_event srv sock (PrivateMessageTo toUserId message) newId =
     private_message srv sock toUserId message"
| "on_event srv sock Disconnect newId = disconnect srv sock"

text \<open>An event arriving under socket id \<open>s\<close> and handled before anything else happens:
  only a socket that passed the handshake has handlers; anything else is not heard.\<close>

definition receive :: "server \<Rightarrow> string \<Rightarrow> in_event \<Rightarrow> oid \<Rightarrow> server \<times> delivery list" where
  "receive srv s ev newId =
     (case find (\<lambda>c. sid c = s) (sockets srv) of
        None \<Rightarrow> (srv, [])
      | Some sock \<Rightarrow> on_event srv sock ev newId)"

subsection \<open>Runs of the server\<close>

text \<open>
  A like handler that has read its document and waits for its \<^verbatim>\<open>save\<close>: the socket and
  payload, \<^verbatim>\<open>likes.length\<close> of the document in memory, the change it tracked, and the
  version key it read.
\<close>

datatype task =
    PostLikeTask socket oid action nat change nat
  | CommentLikeTask socket oid oid action nat change nat

text \<open>
  The server with its handlers in flight: the state, the version key \<^verbatim>\<open>__v\<close> of every
  post and comment (a new document's is 0, and its id was never used before), and the
  like handlers that wait for their \<^verbatim>\<open>save\<close>.
\<close>

record world =
  server_of :: server
  post_v :: "oid \<Rightarrow> nat"
  comment_v :: "oid \<Rightarrow> nat"
  pending :: "task list"

definition world0 :: "server \<Rightarrow> world" where
  "world0 srv = \<lparr>server_of = srv, post_v = (\<lambda>i. 0), comment_v = (\<lambda>i. 0), pending = []\<rparr>"

text \<open>The first half of a like handler: the read, the edit in memory, and the wait.\<close>

definition post_like_start :: "world \<Rightarrow> socket \<Rightarrow> oid \<Rightarrow> action \<Rightarrow> world \<times> delivery list" where
  "post_like_start w sock postId act =
     (case Post_findById (server_of w) postId of
        Inl e \<Rightarrow> (w, socket_emit sock (PostError ''Failed to update likes''))
      | Inr None \<Rightarrow> (w, [])
      | Inr (Some p) \<Rightarrow>
          (w\<lparr>pending := pending w @
                [PostLikeTask sock postId act
                   (length (apply_like act (userId sock) (post_likes p)))
                   (tracked act (userId sock) (post_likes p)) (post_v w postId)]\<rparr>, []))"

definition comment_like_start ::
  "world \<Rightarrow> socket \<Rightarrow> oid \<Rightarrow> oid \<Rightarrow> action \<Rightarrow> world \<times> delivery list" where
  "comment_like_start w sock commentId postId act =
     (case Comment_findById (server_of w) commentId of
        Inl e \<Rightarrow> (w, socket_emit sock (CommentError ''Failed to update comment likes''))
      | Inr None \<Rightarrow> (w, [])
      | Inr (Some c) \<Rightarrow>
          (w\<lparr>pending := pending w @
                [CommentLikeTask sock commentId postId act
                   (length (apply_like act (userId sock) (comment_likes c)))
                   (tracked act (userId sock) (comment_likes c)) (comment_v w commentId)]\<rparr>, []))"

text \<open>The second half: the save against the store as it is now. A save that changes the
  array moves the version key on.\<close>

fun resume_task :: "world \<Rightarrow> task \<Rightarrow> world \<times> delivery list" where
  "resume_task w (PostLikeTask sock postId act n ch v) =
     (let unmoved = (post_v w postId = v);
          res = post_like_save (server_of w) sock postId act n ch unmoved
      in (w\<lparr>server_of := fst res,
            post_v := (case Post_save (server_of w) postId ch unmoved of
                         Inl e \<Rightarrow> post_v w
                       | Inr s \<Rightarrow> if ch = NoChange then post_v w
                                  else (post_v w)(postId := Suc (post_v w postId)))\<rparr>,
          snd res))"
| "resume_task w (CommentLikeTask sock commentId postId act n ch v) =
     (let unmoved = (comment_v w commentId = v);
          res = comment_like_save (server_of w) sock commentId postId act n ch unmoved
      in (w\<lparr>server_of := fst res,
            comment_v := (case Comment_save_likes (server_of w) commentId ch unmoved of
                            Inl e \<Rightarrow> comment_v w
                          | Inr s \<Rightarrow> if ch = NoChange then comment_v w
                                     else (comment_v w)(commentId :=
                                            Suc (comment_v w commentId)))\<rparr>,
          snd res))"

definition resume :: "world \<Rightarrow> nat \<Rightarrow> world \<times> delivery list" where
  "resume w n =
     (if n < length (pending w)
      then resume_task (w\<lparr>pending := take n (pending w) @ drop (Suc n) (pending w)\<rparr>)
             (pending w ! n)
      else (w, []))"

text \<open>
  An event reaching the handlers of a socket. The like handlers stop at their first
  await. Every other handler makes one call that changes the store, and what it does
  after that call (\<^verbatim>\<open>populate\<close>, which reads users that the socket layer never changes,
  and the emit) is taken together with it.
\<close>

fun start :: "world \<Rightarrow> socket \<Rightarrow> in_event \<Rightarrow> oid \<Rightarrow> world \<times> delivery list" where
  "start w sock (PostLike postId act) newId = post_like_start w sock postId act"
| "start w sock (CommentLike commentId postId act) newId =
     comment_like_start w sock commentId postId act"
| "start w sock ev newId =
     (w\<lparr>server_of := fst (on_event (server_of w) sock ev newId)\<rparr>,
      snd (on_event (server_of w) sock ev newId))"

text \<open>What happens at the server: a handshake under a socket id, an event emitted under
  one, or the store answering the save of the like handler that waits at position
  \<open>n\<close>. A refused handshake leaves the server as it was.\<close>

datatype input = Handshake string "string option" | Emit string in_event oid | Resume nat

fun step :: "world \<Rightarrow> input \<Rightarrow> world \<times> delivery list" where
  "step w (Handshake s token) =
     (case connect (server_of w) s token of
        Inl e \<Rightarrow> (w, [])
      | Inr srv' \<Rightarrow> (w\<lparr>server_of := srv'\<rparr>, []))"
| "step w (Emit s ev newId) =
     (case find (\<lambda>c. sid c = s) (sockets (server_of w)) of
        None \<Rightarrow> (w, [])
      | Some sock \<Rightarrow> start w sock ev newId)"
| "step w (Resume n) = resume w n"

fun runs :: "world \<Rightarrow> input list \<Rightarrow> world" where
  "runs w [] = w"
| "runs w (x # xs) = runs (fst (step w x)) xs"

text \<open>All that is delivered along the way, in order.\<close>

fun heard :: "world \<Rightarrow> input list \<Rightarrow> delivery list" where
  "heard w [] = []"
| "heard w (x # xs) = snd (step w x) @ heard (fst (step w x)) xs"

text \<open>The state of a server that started as \<open>srv\<close>, after the inputs.\<close>

definition run :: "server \<Rightarrow> input list \<Rightarrow> server" where
  "run srv tr = server_of (runs (world0 srv) tr)"

text \<open>No socket with id \<open>k\<close> is in the room.\<close>

definition outside :: "server \<Rightarrow> string \<Rightarrow> string \<Rightarrow> bool" where
  "outside srv k room = (\<forall>c \<in> set (sockets srv). sid c = k \<longrightarrow> room \<notin> rooms c)"

subsection \<open>A small server\<close>

text \<open>
  Two users, a published post \<open>p1\<close> that alice likes, a draft \<open>p2\<close>, one comment \<open>c7\<close>
  that bob likes, and three sockets: alice (\<open>A\<close>) and bob (\<open>B\<close>) read \<open>p1\<close>, a second
  socket of bob (\<open>C\<close>) reads \<open>p2\<close>. The store throws on the id \<open>bad\<close>.
\<close>

definition alice :: user where
  "alice = \<lparr>user_username = ''alice'', avatar = None\<rparr>"

definition bob :: user where
  "bob = \<lparr>user_username = ''bob'', avatar = None\<rparr>"

definition p1doc :: post where
  "p1doc = \<lparr>post_author = ''u1'', status = Published, post_likes = [''u1'']\<rparr>"

definition p2doc :: post where
  "p2doc = \<lparr>post_author = ''u1'', status = Draft, post_likes = []\<rparr>"

definition c7doc :: comment where
  "c7doc = \<lparr>content = [104, 105], author = ''u2'', post = ''p1'',
             parentComment = None, comment_likes = [''u2''], isEdited = False\<rparr>"

definition sockA :: socket where
  "sockA = \<lparr>sid = ''A'', userId = ''u1'', username = ''alice'', rooms = {post_room ''p1''}\<rparr>"

definition sockB :: socket where
  "sockB = \<lparr>sid = ''B'', userId = ''u2'', username = ''bob'', rooms = {post_room ''p1''}\<rparr>"

definition sockC :: socket where
  "sockC = \<lparr>sid = ''C'', userId = ''u2'', username = ''bob'', rooms = {post_room ''p2''}\<rparr>"

definition srv0 :: server where
  "srv0 = \<lparr>jwtVerify = [''t1'' \<mapsto> ''u1'', ''t2'' \<mapsto> ''u2'', ''t9'' \<mapsto> ''u9''],
           throwsOn = (\<lambda>i. i = ''bad''),
           users = [''u1'' \<mapsto> alice, ''u2'' \<mapsto> bob],
           posts = [''p1'' \<mapsto> p1doc, ''p2'' \<mapsto> p2doc],
           comments = [''c7'' \<mapsto> c7doc],
           sockets = [sockA, sockB, sockC]\<rparr>"

text \<open>The same server before anyone connects, and a morning on it: three handshakes,
  then \<open>A\<close> joins the room of \<open>p1\<close> and \<open>C\<close> that of \<open>p2\<close>; \<open>B\<close> joins nothing.\<close>

definition boot :: server where
  "boot = srv0\<lparr>sockets := []\<rparr>"

definition scenario :: "input list" where
  "scenario = [Handshake ''A'' (Some ''t1''), Handshake ''B'' (Some ''t2''),
               Handshake ''C'' (Some ''t2''), Emit ''A'' (JoinPost ''p1'') ''x'',
               Emit ''C'' (JoinPost ''p2'') ''x'']"

text \<open>
  Two likes that overlap: both handlers read before either saves. In \<open>two_tabs\<close> bob
  likes \<open>p1\<close> from both of his sockets; in \<open>two_readers\<close> alice and bob like \<open>p2\<close>.
\<close>

definition two_tabs :: "input list" where
  "two_tabs = [Emit ''B'' (PostLike ''p1'' Like) ''x'', Emit ''C'' (PostLike ''p1'' Like) ''x'',
               Resume 0, Resume 0]"

definition two_readers :: "input list" where
  "two_readers = [Emit ''A'' (PostLike ''p2'' Like) ''x'', Emit ''B'' (PostLike ''p2'' Like) ''x'',
                  Resume 0, Resume 0]"

definition lurkerB :: socket where
  "lurkerB = \<lparr>sid = ''B'', userId = ''u2'', username = ''bob'', rooms = {}\<rparr>"

text \<open>The comments that the concrete cases below store: the body is \<open>hi\<close>.\<close>

definition hello :: "oid \<Rightarrow> oid \<Rightarrow> oid option \<Rightarrow> comment" where
  "hello auth postId parent =
     \<lparr>content = [104, 105], author = auth, post = postId, parentComment = parent,
      comment_likes = [], isEdited = False\<rparr>"

lemmas ex_defs = alice_def bob_def p1doc_def p2doc_def c7doc_def sockA_def sockB_def sockC_def
  srv0_def post_room_def

lemmas like_defs = post_like_def Post_findById_def post_like_save_def Post_save_def
  comment_like_def Comment_findById_def comment_like_save_def Comment_save_likes_def
  tracked_def store_change_def apply_like_def

section \<open>Properties\<close>

subsection \<open>Who receives an emit\<close>

lemma in_io_to_emit:
  "d \<in> set (io_to_emit srv room ev) \<longleftrightarrow>
     (\<exists>c \<in> set (sockets srv). room \<in> rooms c \<and> d = (sid c, ev))"
  by (auto simp: io_to_emit_def)

lemma in_socket_to_emit:
  "d \<in> set (socket_to_emit srv sock room ev) \<longleftrightarrow>
     (\<exists>c \<in> set (sockets srv). sid c \<noteq> sid sock \<and> room \<in> rooms c \<and> d = (sid c, ev))"
  by (auto simp: socket_to_emit_def)

lemma in_socket_broadcast_emit:
  "d \<in> set (socket_broadcast_emit srv sock ev) \<longleftrightarrow>
     (\<exists>c \<in> set (sockets srv). sid c \<noteq> sid sock \<and> d = (sid c, ev))"
  by (auto simp: socket_broadcast_emit_def)

lemma receivers_io_to_emit:
  "fst ` set (io_to_emit srv room ev) = sid ` {k \<in> set (sockets srv). room \<in> rooms k}"
  by (force simp: io_to_emit_def)

lemma io_to_emit_store [simp]:
  "io_to_emit (srv\<lparr>posts := ps\<rparr>) room ev = io_to_emit srv room ev"
  "io_to_emit (srv\<lparr>comments := cs\<rparr>) room ev = io_to_emit srv room ev"
  by (simp_all add: io_to_emit_def)

lemma post_room_inj [simp]: "post_room a = post_room b \<longleftrightarrow> a = b"
  by (simp add: post_room_def)

subsection \<open>Trimming\<close>

lemma trim_padded:
  "\<not> isWhiteSpace x \<Longrightarrow> isWhiteSpace w \<Longrightarrow> trim (x # replicate n w) = [x]"
  by (simp add: trim_def dropWhile_append3 flip: replicate_append_same)

lemma trim_replicate:
  "\<not> isWhiteSpace x \<Longrightarrow> trim (replicate n x) = replicate n x"
  by (simp add: trim_def dropWhile_replicate)

lemma space_isWhiteSpace: "isWhiteSpace 32"
  by (simp add: isWhiteSpace_def)

lemma letter_a_not_isWhiteSpace: "\<not> isWhiteSpace 97"
  by (simp add: isWhiteSpace_def)

lemma trim_hi: "trim [104, 105] = [104, 105]" "trim [32, 104, 105] = [104, 105]"
  by (simp_all add: trim_def isWhiteSpace_def)

subsection \<open>The like lists\<close>

lemma distinct_apply_like: "distinct ls \<Longrightarrow> distinct (apply_like act u ls)"
  by (simp add: apply_like_def)

lemma apply_like_present: "u \<in> set ls \<Longrightarrow> apply_like Like u ls = ls"
  by (simp add: apply_like_def)

lemma apply_like_absent: "u \<notin> set ls \<Longrightarrow> apply_like Unlike u ls = ls"
  by (simp add: apply_like_def remove1_idem)

lemma like_unlike: "u \<notin> set ls \<Longrightarrow> apply_like Unlike u (apply_like Like u ls) = ls"
  by (simp add: apply_like_def remove1_append)

lemma unlike_like:
  assumes "u \<in> set ls" and "distinct ls"
  shows "set (apply_like Like u (apply_like Unlike u ls)) = set ls"
    and "length (apply_like Like u (apply_like Unlike u ls)) = length ls"
proof -
  from assms have gone: "u \<notin> set (remove1 u ls)" by simp
  then have shape: "apply_like Like u (apply_like Unlike u ls) = remove1 u ls @ [u]"
    by (simp add: apply_like_def)
  from assms show "set (apply_like Like u (apply_like Unlike u ls)) = set ls"
    unfolding shape by auto
  from assms(1) have "0 < length ls" by (rule length_pos_if_in_set)
  with assms(1) show "length (apply_like Like u (apply_like Unlike u ls)) = length ls"
    unfolding shape by (simp add: length_remove1)
qed

lemma store_change_tracked:
  "store_change (tracked act u ls) ls = apply_like act u ls"
  by (simp add: store_change_def tracked_def apply_like_def remove1_idem)

lemma Post_save_unmoved:
  assumes "posts srv postId = Some p"
  shows "Post_save srv postId (tracked act u (post_likes p)) True
           = Inr (srv\<lparr>posts := (posts srv)(postId \<mapsto>
                        p\<lparr>post_likes := apply_like act u (post_likes p)\<rparr>)\<rparr>)"
proof (cases "tracked act u (post_likes p)")
  case (SetAll new)
  with store_change_tracked [of act u "post_likes p"] assms show ?thesis
    by (simp add: Post_save_def store_change_def)
qed (insert store_change_tracked [of act u "post_likes p"] assms,
    simp_all add: Post_save_def)

lemma Comment_save_likes_unmoved:
  assumes "comments srv commentId = Some c"
  shows "Comment_save_likes srv commentId (tracked act u (comment_likes c)) True
           = Inr (srv\<lparr>comments := (comments srv)(commentId \<mapsto>
                        c\<lparr>comment_likes := apply_like act u (comment_likes c)\<rparr>)\<rparr>)"
proof (cases "tracked act u (comment_likes c)")
  case (SetAll new)
  with store_change_tracked [of act u "comment_likes c"] assms show ?thesis
    by (simp add: Comment_save_likes_def store_change_def)
qed (insert store_change_tracked [of act u "comment_likes c"] assms,
    simp_all add: Comment_save_likes_def)

lemma post_like_found:
  "\<not> throwsOn srv postId \<Longrightarrow> posts srv postId = Some p \<Longrightarrow>
   post_like srv sock postId act =
     (srv\<lparr>posts := (posts srv)(postId \<mapsto>
             p\<lparr>post_likes := apply_like act (userId sock) (post_likes p)\<rparr>)\<rparr>,
      io_to_emit srv (post_room postId)
        (PostLikesUpdated postId (length (apply_like act (userId sock) (post_likes p))) act))"
  by (simp add: post_like_def Post_findById_def post_like_save_def Post_save_unmoved)

lemma comment_like_found:
  "\<not> throwsOn srv commentId \<Longrightarrow> comments srv commentId = Some c \<Longrightarrow>
   comment_like srv sock commentId postId act =
     (srv\<lparr>comments := (comments srv)(commentId \<mapsto>
             c\<lparr>comment_likes := apply_like act (userId sock) (comment_likes c)\<rparr>)\<rparr>,
      io_to_emit srv (post_room postId)
        (CommentLikesUpdated commentId postId
           (length (apply_like act (userId sock) (comment_likes c))) act))"
  by (simp add: comment_like_def Comment_findById_def comment_like_save_def
      Comment_save_likes_unmoved)

lemma post_like_absent:
  "\<not> throwsOn srv postId \<Longrightarrow> posts srv postId = None \<Longrightarrow>
   post_like srv sock postId act = (srv, [])"
  by (simp add: post_like_def Post_findById_def)

lemma comment_like_absent:
  "\<not> throwsOn srv commentId \<Longrightarrow> comments srv commentId = None \<Longrightarrow>
   comment_like srv sock commentId postId act = (srv, [])"
  by (simp add: comment_like_def Comment_findById_def)

lemma post_like_throws:
  "throwsOn srv postId \<Longrightarrow>
   post_like srv sock postId act = (srv, socket_emit sock (PostError ''Failed to update likes''))"
  by (simp add: post_like_def Post_findById_def)

lemma comment_like_throws:
  "throwsOn srv commentId \<Longrightarrow>
   comment_like srv sock commentId postId act
     = (srv, socket_emit sock (CommentError ''Failed to update comment likes''))"
  by (simp add: comment_like_def Comment_findById_def)

text \<open>With nothing between its two halves, a like handler in a run does what \<open>post_like\<close>
  and \<open>comment_like\<close> say.\<close>

lemma nth_and_rest [simp]:
  "(ps @ [t]) ! length ps = t" "take (length ps) (ps @ [t]) @ drop (Suc (length ps)) (ps @ [t]) = ps"
  by simp_all

lemma post_like_uninterrupted:
  "server_of (fst (resume (fst (post_like_start w sock postId act)) (length (pending w))))
     = fst (post_like (server_of w) sock postId act)
   \<and> snd (post_like_start w sock postId act)
       @ snd (resume (fst (post_like_start w sock postId act)) (length (pending w)))
     = snd (post_like (server_of w) sock postId act)"
proof (cases "Post_findById (server_of w) postId")
  case (Inl e)
  then show ?thesis by (simp add: post_like_start_def post_like_def resume_def)
next
  case (Inr found)
  show ?thesis
  proof (cases found)
    case None
    with Inr show ?thesis by (simp add: post_like_start_def post_like_def resume_def)
  next
    case (Some p)
    with Inr show ?thesis
      by (simp add: post_like_start_def post_like_def resume_def Let_def)
  qed
qed

lemma comment_like_uninterrupted:
  "server_of (fst (resume (fst (comment_like_start w sock commentId postId act))
                     (length (pending w))))
     = fst (comment_like (server_of w) sock commentId postId act)
   \<and> snd (comment_like_start w sock commentId postId act)
       @ snd (resume (fst (comment_like_start w sock commentId postId act))
                (length (pending w)))
     = snd (comment_like (server_of w) sock commentId postId act)"
proof (cases "Comment_findById (server_of w) commentId")
  case (Inl e)
  then show ?thesis by (simp add: comment_like_start_def comment_like_def resume_def)
next
  case (Inr found)
  show ?thesis
  proof (cases found)
    case None
    with Inr show ?thesis by (simp add: comment_like_start_def comment_like_def resume_def)
  next
    case (Some c)
    with Inr show ?thesis
      by (simp add: comment_like_start_def comment_like_def resume_def Let_def)
  qed
qed

subsection \<open>Rooms along a run\<close>

lemma sockets_new_comment [simp]:
  "sockets (fst (new_comment srv sock postId cont parent newId)) = sockets srv"
  by (simp add: new_comment_def Comment_save_def Let_def)

lemma sockets_update_comment [simp]:
  "sockets (fst (update_comment srv sock commentId cont postId)) = sockets srv"
  by (simp add: update_comment_def Let_def split: option.splits)

lemma sockets_delete_comment [simp]:
  "sockets (fst (delete_comment srv sock commentId postId)) = sockets srv"
  by (simp add: delete_comment_def Let_def)

lemma sockets_like_save [simp]:
  "sockets (fst (post_like_save srv sock postId act n ch unmoved)) = sockets srv"
  "sockets (fst (comment_like_save srv sock commentId postId act n ch unmoved)) = sockets srv"
  by (auto simp: post_like_save_def Post_save_def comment_like_save_def Comment_save_likes_def
      split: option.splits change.splits)

lemma sockets_post_like [simp]:
  "sockets (fst (post_like srv sock postId act)) = sockets srv"
  by (simp add: post_like_def split: sum.splits option.splits)

lemma sockets_comment_like [simp]:
  "sockets (fst (comment_like srv sock commentId postId act)) = sockets srv"
  by (simp add: comment_like_def split: sum.splits option.splits)

lemma sockets_like_start [simp]:
  "sockets (server_of (fst (post_like_start w sock postId act))) = sockets (server_of w)"
  "sockets (server_of (fst (comment_like_start w sock commentId postId act)))
     = sockets (server_of w)"
  by (simp_all add: post_like_start_def comment_like_start_def split: sum.splits option.splits)

lemma sockets_resume [simp]:
  "sockets (server_of (fst (resume w n))) = sockets (server_of w)"
proof (cases "n < length (pending w)")
  case True
  then show ?thesis
    by (cases "pending w ! n") (simp_all add: resume_def Let_def)
next
  case False
  then show ?thesis by (simp add: resume_def)
qed

lemma sockets_signals [simp]:
  "sockets (fst (typing_start srv sock postId ty)) = sockets srv"
  "sockets (fst (typing_stop srv sock postId)) = sockets srv"
  "sockets (fst (user_online srv sock)) = sockets srv"
  "sockets (fst (private_message srv sock toUserId message)) = sockets srv"
  by (simp_all add: typing_start_def typing_stop_def user_online_def private_message_def
      split: option.splits)

text \<open>Only the socket's own \<^verbatim>\<open>join-post\<close> for that post puts it into the room of a post.\<close>

lemma outside_on_event:
  assumes "outside srv k (post_room P)" and "sid sock = k \<longrightarrow> ev \<noteq> JoinPost P"
  shows "outside (fst (on_event srv sock ev newId)) k (post_room P)"
proof (cases ev)
  case (JoinPost Q)
  with assms show ?thesis by (auto simp: outside_def join_post_def)
next
  case (LeavePost Q)
  with assms show ?thesis by (auto simp: outside_def leave_post_def)
next
  case Disconnect
  with assms show ?thesis by (auto simp: outside_def disconnect_def Let_def)
qed (insert assms, simp_all add: outside_def)

lemma outside_start:
  assumes "outside (server_of w) k (post_room P)" and "sid sock = k \<longrightarrow> ev \<noteq> JoinPost P"
  shows "outside (server_of (fst (start w sock ev newId))) k (post_room P)"
proof (cases ev)
  case (PostLike postId act)
  with assms(1) show ?thesis by (simp add: outside_def)
next
  case (CommentLike commentId postId act)
  with assms(1) show ?thesis by (simp add: outside_def)
qed (insert outside_on_event [OF assms, of newId], simp_all)

lemma outside_step:
  assumes "outside (server_of w) k (post_room P)" and "\<forall>i. x \<noteq> Emit k (JoinPost P) i"
  shows "outside (server_of (fst (step w x))) k (post_room P)"
proof (cases x)
  case (Handshake s token)
  with assms(1) show ?thesis
    by (auto simp: outside_def connect_def split: sum.splits prod.splits)
next
  case (Emit s ev newId)
  show ?thesis
  proof (cases "find (\<lambda>c. sid c = s) (sockets (server_of w))")
    case None
    with Emit assms(1) show ?thesis by simp
  next
    case (Some sock)
    then have "sid sock = s" by (auto simp: find_Some_iff)
    with assms(2) Emit have "sid sock = k \<longrightarrow> ev \<noteq> JoinPost P" by auto
    from outside_start [OF assms(1) this] Emit Some show ?thesis by simp
  qed
next
  case (Resume n)
  with assms(1) show ?thesis by (simp add: outside_def)
qed

lemma outside_runs:
  "outside (server_of w) k (post_room P) \<Longrightarrow> \<forall>i. Emit k (JoinPost P) i \<notin> set tr \<Longrightarrow>
   outside (server_of (runs w tr)) k (post_room P)"
proof (induction tr arbitrary: w)
  case Nil
  then show ?case by simp
next
  case (Cons x tr)
  from Cons.prems have "\<forall>i. x \<noteq> Emit k (JoinPost P) i" by auto
  with Cons.prems(1) have "outside (server_of (fst (step w x))) k (post_room P)"
    by (rule outside_step)
  moreover from Cons.prems have "\<forall>i. Emit k (JoinPost P) i \<notin> set tr" by auto
  ultimately show ?case using Cons.IH by simp
qed

lemma outside_run:
  "outside srv k (post_room P) \<Longrightarrow> \<forall>i. Emit k (JoinPost P) i \<notin> set tr \<Longrightarrow>
   outside (run srv tr) k (post_room P)"
proof -
  assume "outside srv k (post_room P)" and never: "\<forall>i. Emit k (JoinPost P) i \<notin> set tr"
  then have "outside (server_of (world0 srv)) k (post_room P)" by (simp add: world0_def)
  from this never show ?thesis unfolding run_def by (rule outside_runs)
qed

lemma run_scenario:
  "run boot scenario = srv0\<lparr>sockets :=
     [\<lparr>sid = ''A'', userId = ''u1'', username = ''alice'', rooms = {post_room ''p1''}\<rparr>,
      \<lparr>sid = ''B'', userId = ''u2'', username = ''bob'', rooms = {}\<rparr>,
      \<lparr>sid = ''C'', userId = ''u2'', username = ''bob'', rooms = {post_room ''p2''}\<rparr>]\<rparr>"
  by (simp add: run_def world0_def scenario_def boot_def srv0_def alice_def bob_def
      connect_def authenticate_def join_post_def)

subsection \<open>Storing a comment\<close>

lemma new_comment_stored:
  assumes "new_comment srv sock postId cont parent newId = (srv', out)"
    and "comments srv newId = None" and "comments srv' newId = Some c"
  shows "out = io_to_emit srv (post_room postId)
                 (CommentAdded \<lparr>doc_id = newId, doc = c,
                    doc_author = users srv (userId sock)\<rparr> postId)"
proof (cases "Comment_save srv newId (new_Comment cont (userId sock) postId
                (case parent of None \<Rightarrow> None | Some p \<Rightarrow> if p = [] then None else Some p))")
  case (Inl e)
  with assms show ?thesis by (simp add: new_comment_def Let_def)
next
  case (Inr s1)
  with assms show ?thesis
    by (auto simp: new_comment_def Let_def Comment_save_def populate_def new_Comment_def
        split: if_splits)
qed

lemma receive_unknown:
  assumes "s \<notin> sid ` set (sockets srv)"
  shows "receive srv s ev i = (srv, [])"
proof -
  from assms have "find (\<lambda>c. sid c = s) (sockets srv) = None"
    by (auto simp: find_None_iff)
  then show ?thesis by (simp add: receive_def)
qed

section \<open>The claims\<close>

subsection \<open>C1: references of a new comment\<close>

text \<open>
  C1 asks that a \<^verbatim>\<open>new-comment\<close> is stored only when its post exists and is published
  and its parent comment, when given, exists, and that otherwise nothing is stored or
  sent to the room. The REST route \<^verbatim>\<open>router.post('/')\<close> makes both lookups; the socket
  handler makes neither. On the small server, a comment on the absent post \<open>p404\<close> is
  stored, and a reply to the absent comment \<open>c404\<close> under the draft \<open>p2\<close> is stored and
  sent to the reader of \<open>p2\<close>.
\<close>

theorem new_comment_skips_reference_checks:
  "posts srv0 ''p404'' = None
   \<and> comments (fst (new_comment srv0 sockA ''p404'' [104, 105] None ''c1'')) ''c1''
       = Some (hello ''u1'' ''p404'' None)
   \<and> map_option status (posts srv0 ''p2'') = Some Draft
   \<and> comments srv0 ''c404'' = None
   \<and> comments (fst (new_comment srv0 sockA ''p2'' [104, 105] (Some ''c404'') ''c1'')) ''c1''
       = Some (hello ''u1'' ''p2'' (Some ''c404''))
   \<and> snd (new_comment srv0 sockA ''p2'' [104, 105] (Some ''c404'') ''c1'')
       = [(''C'', CommentAdded \<lparr>doc_id = ''c1'', doc = hello ''u1'' ''p2'' (Some ''c404''),
                                doc_author = Some alice\<rparr> ''p2'')]"
  by (simp add: new_comment_def new_Comment_def Comment_save_def validate_comment_def
      populate_def io_to_emit_def trim_hi hello_def Let_def ex_defs)

subsection \<open>C2: a like or an update of something absent\<close>

text \<open>
  C2 asks that \<^verbatim>\<open>post-like\<close>, \<^verbatim>\<open>comment-like\<close> and \<^verbatim>\<open>update-comment\<close> answer the sender
  with \<^verbatim>\<open>post-error\<close> or \<^verbatim>\<open>comment-error\<close> when the post or comment does not exist.
  The handlers return without emitting anything: on the small server the three events
  on absent ids leave the server as it is and deliver nothing. They do answer when the
  store throws (the id \<open>bad\<close>), and \<^verbatim>\<open>private-message\<close> answers an absent user.
\<close>

theorem missing_entity_is_silent:
  "posts srv0 ''p404'' = None \<and> comments srv0 ''c404'' = None
   \<and> post_like srv0 sockA ''p404'' Like = (srv0, [])
   \<and> comment_like srv0 sockA ''c404'' ''p1'' Like = (srv0, [])
   \<and> update_comment srv0 sockA ''c404'' [104, 105] ''p1'' = (srv0, [])
   \<and> post_like srv0 sockA ''bad'' Like = (srv0, [(''A'', PostError ''Failed to update likes'')])
   \<and> users srv0 ''u404'' = None
   \<and> private_message srv0 sockA ''u404'' [104, 105]
       = (srv0, [(''A'', MessageError ''User not found'')])"
  by (simp add: post_like_absent post_like_throws comment_like_absent update_comment_def
      private_message_def socket_emit_def srv0_def sockA_def)

subsection \<open>C3: a like undone\<close>

text \<open>
  C3 as stated: a \<^verbatim>\<open>like\<close> followed by an \<^verbatim>\<open>unlike\<close> of the same identity gives back the
  like set and the count. The handlers do not toggle, they set: alice already likes
  \<open>p1\<close>, her \<^verbatim>\<open>like\<close> changes nothing, and her \<^verbatim>\<open>unlike\<close> then removes the like she had;
  the count goes from 1 to 0.
\<close>

theorem like_then_unlike_drops_earlier_like:
  "map_option post_likes (posts srv0 ''p1'') = Some [''u1'']
   \<and> userId sockA = ''u1''
   \<and> map_option post_likes
        (posts (fst (post_like (fst (post_like srv0 sockA ''p1'' Like)) sockA ''p1'' Unlike)) ''p1'')
       = Some []
   \<and> snd (post_like (fst (post_like srv0 sockA ''p1'' Like)) sockA ''p1'' Unlike)
       = [(''A'', PostLikesUpdated ''p1'' 0 Unlike), (''B'', PostLikesUpdated ''p1'' 0 Unlike)]"
  by (simp add: like_defs io_to_emit_def ex_defs)

text \<open>
  C3, amended: when the first of the two actions changes the membership, the pair is a
  round trip. For an identity not in the like set, \<^verbatim>\<open>like\<close> then \<^verbatim>\<open>unlike\<close> gives back
  the very state, and the second broadcast carries the original count. For an identity
  in a duplicate-free like set, \<^verbatim>\<open>unlike\<close> then \<^verbatim>\<open>like\<close> gives back the same members and
  the same count (the identity moves to the end of the list). Posts and comments alike.
\<close>

theorem effective_like_round_trip:
  "(\<not> throwsOn srv postId \<and> posts srv postId = Some p \<longrightarrow>
      (userId sock \<notin> set (post_likes p) \<longrightarrow>
         fst (post_like (fst (post_like srv sock postId Like)) sock postId Unlike) = srv
         \<and> (\<forall>d \<in> set (snd (post_like (fst (post_like srv sock postId Like))
                               sock postId Unlike)).
               snd d = PostLikesUpdated postId (length (post_likes p)) Unlike))
      \<and> (userId sock \<in> set (post_likes p) \<and> distinct (post_likes p) \<longrightarrow>
         (\<exists>p'. posts (fst (post_like (fst (post_like srv sock postId Unlike))
                              sock postId Like)) postId = Some p'
            \<and> set (post_likes p') = set (post_likes p)
            \<and> length (post_likes p') = length (post_likes p)
            \<and> (\<forall>d \<in> set (snd (post_like (fst (post_like srv sock postId Unlike))
                                  sock postId Like)).
                  snd d = PostLikesUpdated postId (length (post_likes p)) Like))))
   \<and> (\<not> throwsOn srv commentId \<and> comments srv commentId = Some c \<longrightarrow>
      (userId sock \<notin> set (comment_likes c) \<longrightarrow>
         fst (comment_like (fst (comment_like srv sock commentId postId Like))
                sock commentId postId Unlike) = srv
         \<and> (\<forall>d \<in> set (snd (comment_like (fst (comment_like srv sock commentId postId Like))
                               sock commentId postId Unlike)).
               snd d = CommentLikesUpdated commentId postId (length (comment_likes c)) Unlike))
      \<and> (userId sock \<in> set (comment_likes c) \<and> distinct (comment_likes c) \<longrightarrow>
         (\<exists>c'. comments (fst (comment_like (fst (comment_like srv sock commentId postId Unlike))
                                 sock commentId postId Like)) commentId = Some c'
            \<and> set (comment_likes c') = set (comment_likes c)
            \<and> length (comment_likes c') = length (comment_likes c)
            \<and> (\<forall>d \<in> set (snd (comment_like
                                    (fst (comment_like srv sock commentId postId Unlike))
                                    sock commentId postId Like)).
                  snd d = CommentLikesUpdated commentId postId
                            (length (comment_likes c)) Like))))"
  by (auto simp: post_like_found comment_like_found in_io_to_emit like_unlike unlike_like
      fun_upd_idem)

theorem effective_like_round_trip_witness:
  "\<not> throwsOn srv0 ''p1'' \<and> posts srv0 ''p1'' = Some p1doc \<and> distinct (post_likes p1doc)
   \<and> userId sockB \<notin> set (post_likes p1doc)
   \<and> fst (post_like (fst (post_like srv0 sockB ''p1'' Like)) sockB ''p1'' Unlike) = srv0
   \<and> snd (post_like (fst (post_like srv0 sockB ''p1'' Like)) sockB ''p1'' Unlike)
       = [(''A'', PostLikesUpdated ''p1'' 1 Unlike), (''B'', PostLikesUpdated ''p1'' 1 Unlike)]
   \<and> userId sockA \<in> set (post_likes p1doc)
   \<and> posts (fst (post_like (fst (post_like srv0 sockA ''p1'' Unlike)) sockA ''p1'' Like)) ''p1''
       = Some p1doc
   \<and> \<not> throwsOn srv0 ''c7'' \<and> comments srv0 ''c7'' = Some c7doc \<and> distinct (comment_likes c7doc)
   \<and> userId sockA \<notin> set (comment_likes c7doc)
   \<and> fst (comment_like (fst (comment_like srv0 sockA ''c7'' ''p1'' Like)) sockA ''c7'' ''p1'' Unlike)
       = srv0
   \<and> userId sockB \<in> set (comment_likes c7doc)
   \<and> comments (fst (comment_like (fst (comment_like srv0 sockB ''c7'' ''p1'' Unlike))
                       sockB ''c7'' ''p1'' Like)) ''c7'' = Some c7doc"
proof -
  have pre: "\<not> throwsOn srv0 ''p1''" "posts srv0 ''p1'' = Some p1doc" "distinct (post_likes p1doc)"
    "userId sockB \<notin> set (post_likes p1doc)" "userId sockA \<in> set (post_likes p1doc)"
    "\<not> throwsOn srv0 ''c7''" "comments srv0 ''c7'' = Some c7doc" "distinct (comment_likes c7doc)"
    "userId sockA \<notin> set (comment_likes c7doc)" "userId sockB \<in> set (comment_likes c7doc)"
    by (simp_all add: ex_defs)
  have undone:
    "fst (post_like (fst (post_like srv0 sockB ''p1'' Like)) sockB ''p1'' Unlike) = srv0"
    "fst (comment_like (fst (comment_like srv0 sockA ''c7'' ''p1'' Like)) sockA ''c7'' ''p1'' Unlike)
       = srv0"
    using effective_like_round_trip [where srv = srv0 and postId = "''p1''" and p = p1doc
        and sock = sockB and commentId = "''c7''" and c = c7doc]
      effective_like_round_trip [where srv = srv0 and postId = "''p1''" and p = p1doc
        and sock = sockA and commentId = "''c7''" and c = c7doc] pre
    by simp_all
  have rest:
    "snd (post_like (fst (post_like srv0 sockB ''p1'' Like)) sockB ''p1'' Unlike)
       = [(''A'', PostLikesUpdated ''p1'' 1 Unlike), (''B'', PostLikesUpdated ''p1'' 1 Unlike)]"
    "posts (fst (post_like (fst (post_like srv0 sockA ''p1'' Unlike)) sockA ''p1'' Like)) ''p1''
       = Some p1doc"
    "comments (fst (comment_like (fst (comment_like srv0 sockB ''c7'' ''p1'' Unlike))
                       sockB ''c7'' ''p1'' Like)) ''c7'' = Some c7doc"
    by (simp_all add: like_defs io_to_emit_def ex_defs)
  show ?thesis using pre undone rest by simp
qed

subsection \<open>C4: likes that overlap\<close>

text \<open>
  C4 asks that after every \<^verbatim>\<open>post-like\<close> or \<^verbatim>\<open>comment-like\<close> an identity is in the like
  set at most once, and that the broadcast carries the size of the like set at the
  moment of the change. The handlers guard the push by \<^verbatim>\<open>includes\<close>, but on the
  document they read, one await before the save. When bob likes \<open>p1\<close> from both of his
  sockets and both handlers read before either saves, both push: the stored list holds
  him twice. When alice and bob like \<open>p2\<close> in the same way, the second save makes a like
  set of two and its broadcast says 1.
\<close>

text \<open>
  Without such an overlap the handlers do keep the like list free of duplicates, and
  the count they send is the size of the like set they stored.
\<close>

lemma like_without_overlap:
  assumes "\<not> throwsOn srv postId" and "posts srv postId = Some p" and "distinct (post_likes p)"
  shows "\<exists>p'. posts (fst (post_like srv sock postId act)) postId = Some p'
           \<and> distinct (post_likes p')
           \<and> (\<forall>d \<in> set (snd (post_like srv sock postId act)).
                 snd d = PostLikesUpdated postId (card (set (post_likes p'))) act)"
proof -
  let ?ls = "apply_like act (userId sock) (post_likes p)"
  from assms(3) have "distinct ?ls" by (rule distinct_apply_like)
  moreover from this have "card (set ?ls) = length ?ls" by (rule distinct_card)
  ultimately show ?thesis using assms(1,2) by (auto simp: post_like_found in_io_to_emit)
qed

text \<open>
  C4, on the two runs: bob is in the like list of \<open>p1\<close> twice, and both broadcasts for
  \<open>p2\<close> carry 1 while its like set has grown to two.
\<close>

theorem overlapping_likes_push_twice:
  "userId sockB = ''u2'' \<and> userId sockC = ''u2''
   \<and> map_option post_likes (posts srv0 ''p1'') = Some [''u1'']
   \<and> map_option post_likes (posts (run srv0 two_tabs) ''p1'') = Some [''u1'', ''u2'', ''u2'']
   \<and> heard (world0 srv0) two_tabs
       = [(''A'', PostLikesUpdated ''p1'' 2 Like), (''B'', PostLikesUpdated ''p1'' 2 Like),
          (''A'', PostLikesUpdated ''p1'' 2 Like), (''B'', PostLikesUpdated ''p1'' 2 Like)]
   \<and> map_option post_likes (posts srv0 ''p2'') = Some []
   \<and> map_option post_likes (posts (run srv0 two_readers) ''p2'') = Some [''u1'', ''u2'']
   \<and> heard (world0 srv0) two_readers
       = [(''C'', PostLikesUpdated ''p2'' 1 Like), (''C'', PostLikesUpdated ''p2'' 1 Like)]"
  by (simp add: run_def world0_def two_tabs_def two_readers_def post_like_start_def resume_def
      like_defs io_to_emit_def ex_defs Let_def)

subsection \<open>C5: who hears of a new comment\<close>

text \<open>
  C5: on a server that started with no connection and has since seen the inputs \<open>tr\<close>,
  let a \<^verbatim>\<open>new-comment\<close> on post \<open>postId\<close> store its comment under a new id. Then every
  delivery of the handler is \<^verbatim>\<open>comment-added\<close> with the stored comment and \<open>postId\<close>;
  the receivers are exactly the sockets now in the room of the post; the sender is
  among them when it is in the room; and a socket that never emitted \<^verbatim>\<open>join-post\<close> for
  this post is not among them.
\<close>

theorem comment_added_reaches_the_room:
  assumes "sockets init = []"
    and "new_comment (run init tr) sock postId cont parent newId = (srv', out)"
    and "comments (run init tr) newId = None" and "comments srv' newId = Some c"
  shows "(\<forall>d \<in> set out. snd d = CommentAdded
            \<lparr>doc_id = newId, doc = c, doc_author = users (run init tr) (userId sock)\<rparr> postId)
       \<and> fst ` set out = sid ` {k \<in> set (sockets (run init tr)). post_room postId \<in> rooms k}
       \<and> (sock \<in> set (sockets (run init tr)) \<and> post_room postId \<in> rooms sock
            \<longrightarrow> sid sock \<in> fst ` set out)
       \<and> (\<forall>k. (\<forall>i. Emit k (JoinPost postId) i \<notin> set tr) \<longrightarrow> k \<notin> fst ` set out)"
proof -
  let ?srv = "run init tr"
  have out: "out = io_to_emit ?srv (post_room postId)
      (CommentAdded \<lparr>doc_id = newId, doc = c, doc_author = users ?srv (userId sock)\<rparr> postId)"
    using assms(2-4) by (rule new_comment_stored)
  have who: "fst ` set out = sid ` {k \<in> set (sockets ?srv). post_room postId \<in> rooms k}"
    unfolding out by (rule receivers_io_to_emit)
  have never: "k \<notin> fst ` set out" if "\<forall>i. Emit k (JoinPost postId) i \<notin> set tr" for k
  proof -
    have "outside init k (post_room postId)" using assms(1) by (simp add: outside_def)
    then have "outside ?srv k (post_room postId)" using that by (rule outside_run)
    then show ?thesis unfolding who by (auto simp: outside_def)
  qed
  show ?thesis using out who never by (auto simp: in_io_to_emit)
qed

text \<open>The scenario: \<open>A\<close> has joined the room of \<open>p1\<close>; \<open>B\<close>, in no room, comments on \<open>p1\<close>.
  \<open>A\<close> hears of it; \<open>C\<close>, who never joined, does not, and neither does \<open>B\<close> itself.\<close>

theorem comment_added_reaches_the_room_witness:
  "sockets boot = []
   \<and> new_comment (run boot scenario) lurkerB ''p1'' [32, 104, 105] None ''c1''
       = (run boot scenario\<lparr>comments := (comments (run boot scenario))
                                            (''c1'' \<mapsto> hello ''u2'' ''p1'' None)\<rparr>,
          [(''A'', CommentAdded \<lparr>doc_id = ''c1'', doc = hello ''u2'' ''p1'' None,
                                 doc_author = Some bob\<rparr> ''p1'')])
   \<and> comments (run boot scenario) ''c1'' = None
   \<and> (\<forall>i. Emit ''C'' (JoinPost ''p1'') i \<notin> set scenario)
   \<and> ''C'' \<notin> fst ` set (snd (new_comment (run boot scenario) lurkerB ''p1''
                                   [32, 104, 105] None ''c1''))"
proof -
  let ?srv = "run boot scenario"
  let ?srv' = "?srv\<lparr>comments := (comments ?srv)(''c1'' \<mapsto> hello ''u2'' ''p1'' None)\<rparr>"
  let ?out = "[(''A'', CommentAdded \<lparr>doc_id = ''c1'', doc = hello ''u2'' ''p1'' None,
                                      doc_author = Some bob\<rparr> ''p1'')]"
  have start: "sockets boot = []" by (simp add: boot_def)
  have handled: "new_comment ?srv lurkerB ''p1'' [32, 104, 105] None ''c1'' = (?srv', ?out)"
    by (simp add: run_scenario new_comment_def new_Comment_def Comment_save_def
        validate_comment_def populate_def io_to_emit_def trim_hi Let_def
        lurkerB_def hello_def ex_defs)
  have fresh: "comments ?srv ''c1'' = None" by (simp add: run_scenario srv0_def)
  have stored: "comments ?srv' ''c1'' = Some (hello ''u2'' ''p1'' None)" by simp
  have never: "\<forall>i. Emit ''C'' (JoinPost ''p1'') i \<notin> set scenario" by (simp add: scenario_def)
  from comment_added_reaches_the_room [OF start handled fresh stored] never
  have "''C'' \<notin> fst ` set ?out" by blast
  with start handled fresh never show ?thesis by simp
qed

subsection \<open>C6: a body that is empty or too long\<close>

text \<open>
  C6 as stated: a \<^verbatim>\<open>new-comment\<close> whose \<^verbatim>\<open>content\<close> is longer than 1000 units is answered
  with \<^verbatim>\<open>comment-error\<close> and not stored. The schema trims before it measures: the letter
  \<open>a\<close> followed by 1000 spaces is 1001 units long, is stored as \<open>a\<close> and is sent to the
  room.
\<close>

theorem padded_long_comment_is_stored:
  "length (97 # replicate 1000 32) = 1001
   \<and> map_option content
        (comments (fst (new_comment srv0 sockA ''p1'' (97 # replicate 1000 32) None ''c1'')) ''c1'')
       = Some [97]
   \<and> map fst (snd (new_comment srv0 sockA ''p1'' (97 # replicate 1000 32) None ''c1''))
       = [''A'', ''B'']
   \<and> (''A'', CommentError ''Failed to add comment'')
       \<notin> set (snd (new_comment srv0 sockA ''p1'' (97 # replicate 1000 32) None ''c1''))"
  by (simp add: new_comment_def new_Comment_def Comment_save_def validate_comment_def
      populate_def io_to_emit_def trim_padded space_isWhiteSpace letter_a_not_isWhiteSpace
      Let_def ex_defs)

text \<open>
  C6, amended: a \<^verbatim>\<open>new-comment\<close> whose \<^verbatim>\<open>content\<close> is, after trimming, empty or longer than
  1000 units is answered to the sender alone with \<^verbatim>\<open>comment-error\<close>; nothing is stored
  and nothing else is sent.
\<close>

theorem bad_body_answered_to_sender:
  assumes "trim cont = [] \<or> 1000 < length (trim cont)"
  shows "new_comment srv sock postId cont parent newId
           = (srv, [(sid sock, CommentError ''Failed to add comment'')])"
proof -
  let ?c = "new_Comment cont (userId sock) postId
              (case parent of None \<Rightarrow> None | Some p \<Rightarrow> if p = [] then None else Some p)"
  from assms have "\<not> validate_comment srv ?c"
    by (auto simp: validate_comment_def new_Comment_def)
  then have "Comment_save srv newId ?c = Inl ''ValidationError''"
    by (simp add: Comment_save_def)
  then show ?thesis
    by (simp add: new_comment_def Let_def socket_emit_def)
qed

theorem bad_body_answered_to_sender_witness:
  "trim [32, 9, 10] = []
   \<and> new_comment srv0 sockA ''p1'' [32, 9, 10] None ''c1''
       = (srv0, [(''A'', CommentError ''Failed to add comment'')])
   \<and> 1000 < length (trim (replicate 1001 97))
   \<and> new_comment srv0 sockA ''p1'' (replicate 1001 97) None ''c1''
       = (srv0, [(''A'', CommentError ''Failed to add comment'')])"
proof -
  have e: "trim [32, 9, 10] = []" by (simp add: trim_def isWhiteSpace_def)
  have l: "1000 < length (trim (replicate 1001 97))"
    by (simp add: trim_replicate letter_a_not_isWhiteSpace)
  have s: "sid sockA = ''A''" by (simp add: sockA_def)
  show ?thesis
    using bad_body_answered_to_sender [of "[32, 9, 10]" srv0 sockA "''p1''" None "''c1''"]
      bad_body_answered_to_sender [of "replicate 1001 97" srv0 sockA "''p1''" None "''c1''"]
      e l s
    by simp
qed

subsection \<open>C7: typing\<close>

text \<open>
  C7: \<^verbatim>\<open>typing-start\<close> on post \<open>postId\<close> delivers \<^verbatim>\<open>user-typing\<close>, with the sender's user id
  and name and the typing type, to every other socket in the room of the post, to no
  socket outside the room, and never to the sending socket; the server is unchanged.
\<close>

theorem typing_start_skips_sender:
  "(\<forall>c \<in> set (sockets srv). sid c \<noteq> sid sock \<and> post_room postId \<in> rooms c \<longrightarrow>
      (sid c, UserTyping (userId sock) (username sock) ty)
        \<in> set (snd (typing_start srv sock postId ty)))
   \<and> (\<forall>d \<in> set (snd (typing_start srv sock postId ty)).
        fst d \<noteq> sid sock \<and> snd d = UserTyping (userId sock) (username sock) ty
        \<and> (\<exists>c \<in> set (sockets srv). sid c = fst d \<and> post_room postId \<in> rooms c))
   \<and> fst (typing_start srv sock postId ty) = srv"
  by (auto simp: typing_start_def in_socket_to_emit)

theorem typing_start_skips_sender_witness:
  "sockA \<in> set (sockets srv0) \<and> post_room ''p1'' \<in> rooms sockA
   \<and> sockB \<in> set (sockets srv0) \<and> sid sockB \<noteq> sid sockA \<and> post_room ''p1'' \<in> rooms sockB
   \<and> (''B'', UserTyping ''u1'' ''alice'' Reply) \<in> set (snd (typing_start srv0 sockA ''p1'' Reply))
   \<and> ''A'' \<notin> fst ` set (snd (typing_start srv0 sockA ''p1'' Reply))"
  using typing_start_skips_sender [of srv0 sockA "''p1''" Reply]
  by (auto simp: ex_defs)

subsection \<open>C8: presence\<close>

text \<open>
  C8 as stated: \<^verbatim>\<open>user-status\<close> for \<^verbatim>\<open>user-online\<close> is delivered to all connections. The
  handler emits by \<^verbatim>\<open>socket.broadcast\<close>, which leaves the sender out: alice's socket is
  connected and is not told.
\<close>

theorem user_online_sender_not_told:
  "sockA \<in> set (sockets srv0)
   \<and> sid sockA \<notin> fst ` set (snd (user_online srv0 sockA))"
  by (simp add: ex_defs user_online_def socket_broadcast_emit_def)

text \<open>
  C8, amended: \<^verbatim>\<open>user-online\<close> delivers \<^verbatim>\<open>user-status\<close> with status online and the sender's
  identity to every connection other than the sender, whatever rooms it is in, and
  to nobody else.
\<close>

theorem user_online_reaches_all_others:
  "(\<forall>c \<in> set (sockets srv). sid c \<noteq> sid sock \<longrightarrow>
      (sid c, UserStatus (userId sock) (username sock) Online)
        \<in> set (snd (user_online srv sock)))
   \<and> (\<forall>d \<in> set (snd (user_online srv sock)).
        fst d \<noteq> sid sock \<and> fst d \<in> sid ` set (sockets srv)
        \<and> snd d = UserStatus (userId sock) (username sock) Online)
   \<and> fst (user_online srv sock) = srv"
proof (intro conjI ballI impI)
  fix c assume "c \<in> set (sockets srv)" and "sid c \<noteq> sid sock"
  then show "(sid c, UserStatus (userId sock) (username sock) Online)
      \<in> set (snd (user_online srv sock))"
    by (auto simp: user_online_def in_socket_broadcast_emit)
next
  fix d assume "d \<in> set (snd (user_online srv sock))"
  then obtain c where c: "c \<in> set (sockets srv)" "sid c \<noteq> sid sock"
      "d = (sid c, UserStatus (userId sock) (username sock) Online)"
    by (auto simp: user_online_def in_socket_broadcast_emit)
  from c show "fst d \<noteq> sid sock" by simp
  from c show "fst d \<in> sid ` set (sockets srv)" by simp
  from c show "snd d = UserStatus (userId sock) (username sock) Online" by simp
next
  show "fst (user_online srv sock) = srv" by (simp add: user_online_def)
qed

theorem user_online_reaches_all_others_witness:
  "sockC \<in> set (sockets srv0) \<and> sid sockC \<noteq> sid sockA \<and> rooms sockC \<inter> rooms sockA = {}
   \<and> (''C'', UserStatus ''u1'' ''alice'' Online) \<in> set (snd (user_online srv0 sockA))
   \<and> (''B'', UserStatus ''u1'' ''alice'' Online) \<in> set (snd (user_online srv0 sockA))"
  using user_online_reaches_all_others [of srv0 sockA]
  by (auto simp: ex_defs)

subsection \<open>C9: the handshake\<close>

text \<open>
  C9: a handshake with no token, with an empty one, with one that \<^verbatim>\<open>jwt.verify\<close>
  rejects, or with one whose user id the store throws on or holds no user for, is
  refused, and events under the id of a socket that is not connected change nothing and
  reach nobody. A handshake with a token that verifies to the id of a stored user
  connects the socket with that user id and the user's name, in no room.
\<close>

theorem handshake_refuses_or_binds:
  "((token = None \<or> token = Some []
      \<or> (\<exists>t. token = Some t \<and> jwtVerify srv t = None)
      \<or> (\<exists>t uid. token = Some t \<and> jwtVerify srv t = Some uid
                   \<and> (throwsOn srv uid \<or> users srv uid = None)))
     \<longrightarrow> (\<exists>e. connect srv s token = Inl e)
         \<and> (s \<notin> sid ` set (sockets srv) \<longrightarrow> (\<forall>ev i. receive srv s ev i = (srv, []))))
   \<and> (\<forall>t uid u. token = Some t \<and> t \<noteq> [] \<and> jwtVerify srv t = Some uid
          \<and> \<not> throwsOn srv uid \<and> users srv uid = Some u
        \<longrightarrow> connect srv s token =
              Inr (srv\<lparr>sockets := sockets srv @
                     [\<lparr>sid = s, userId = uid, username = user_username u, rooms = {}\<rparr>]\<rparr>))"
  by (auto simp: connect_def authenticate_def receive_unknown split: option.splits)

theorem handshake_refuses_or_binds_witness:
  "(\<exists>e. connect srv0 ''D'' None = Inl e)
   \<and> (\<exists>e. connect srv0 ''D'' (Some []) = Inl e)
   \<and> jwtVerify srv0 ''forged'' = None \<and> (\<exists>e. connect srv0 ''D'' (Some ''forged'') = Inl e)
   \<and> jwtVerify srv0 ''t9'' = Some ''u9'' \<and> users srv0 ''u9'' = None
   \<and> (\<exists>e. connect srv0 ''D'' (Some ''t9'') = Inl e)
   \<and> ''D'' \<notin> sid ` set (sockets srv0) \<and> receive srv0 ''D'' (JoinPost ''p1'') ''c1'' = (srv0, [])
   \<and> jwtVerify srv0 ''t1'' = Some ''u1'' \<and> \<not> throwsOn srv0 ''u1'' \<and> users srv0 ''u1'' = Some alice
   \<and> connect srv0 ''D'' (Some ''t1'') =
       Inr (srv0\<lparr>sockets := sockets srv0 @
              [\<lparr>sid = ''D'', userId = ''u1'', username = ''alice'', rooms = {}\<rparr>]\<rparr>)"
proof -
  have verify: "jwtVerify srv0 ''forged'' = None" "jwtVerify srv0 ''t9'' = Some ''u9''"
    "jwtVerify srv0 ''t1'' = Some ''u1''"
    by (simp_all add: srv0_def)
  have look: "users srv0 ''u9'' = None" "users srv0 ''u1'' = Some alice" "\<not> throwsOn srv0 ''u1''"
    by (simp_all add: srv0_def)
  have unused: "''D'' \<notin> sid ` set (sockets srv0)"
    by (simp add: ex_defs)
  have named: "user_username alice = ''alice''" by (simp add: alice_def)
  show ?thesis
    using handshake_refuses_or_binds [of None srv0 "''D''"]
      handshake_refuses_or_binds [of "Some []" srv0 "''D''"]
      handshake_refuses_or_binds [of "Some ''forged''" srv0 "''D''"]
      handshake_refuses_or_binds [of "Some ''t9''" srv0 "''D''"]
      handshake_refuses_or_binds [of "Some ''t1''" srv0 "''D''"]
      verify look unused named
    by simp
qed

subsection \<open>C10: deleting a comment that is not there\<close>

text \<open>
  C10: when the store does not throw on the comment id, \<^verbatim>\<open>delete-comment\<close> delivers
  \<^verbatim>\<open>comment-deleted\<close> with the client's comment id and post id to every socket in the room
  of the post and to no other, whether or not a comment with that id existed; afterwards
  there is none.
\<close>

theorem delete_comment_confirms_unseen:
  assumes "\<not> throwsOn srv commentId"
  shows "(\<forall>c \<in> set (sockets srv). post_room postId \<in> rooms c \<longrightarrow>
            (sid c, CommentDeleted commentId postId)
              \<in> set (snd (delete_comment srv sock commentId postId)))
       \<and> (\<forall>d \<in> set (snd (delete_comment srv sock commentId postId)).
            snd d = CommentDeleted commentId postId
            \<and> (\<exists>c \<in> set (sockets srv). sid c = fst d \<and> post_room postId \<in> rooms c))
       \<and> comments (fst (delete_comment srv sock commentId postId)) commentId = None"
proof -
  from assms have known: "delete_comment srv sock commentId postId
      = (srv\<lparr>comments := (comments srv)(commentId := None)\<rparr>,
         io_to_emit srv (post_room postId) (CommentDeleted commentId postId))"
    by (simp add: delete_comment_def Let_def)
  show ?thesis unfolding known by (auto simp: in_io_to_emit)
qed

theorem delete_comment_confirms_unseen_witness:
  "\<not> throwsOn srv0 ''c9'' \<and> comments srv0 ''c9'' = None \<and> sockB \<in> set (sockets srv0)
   \<and> post_room ''p1'' \<in> rooms sockB
   \<and> (''B'', CommentDeleted ''c9'' ''p1'') \<in> set (snd (delete_comment srv0 sockA ''c9'' ''p1''))"
  using delete_comment_confirms_unseen [of srv0 "''c9''" "''p1''" sockA]
  by (simp add: ex_defs)

end
